theory Spec2Isabelle
  imports Main
begin

section \<open>Data model\<close>

text \<open>
  The hold and booking engine of the ticket-booking backend
  (\<^verbatim>\<open>holdService.ts\<close>, \<^verbatim>\<open>bookingService.ts\<close>), over the SQLite tables of
  \<^verbatim>\<open>database.ts\<close>.

  Modelling decisions.
  \<^item> An instant is an \<open>int\<close>, the milliseconds of JavaScript's \<^verbatim>\<open>Date.getTime()\<close>. The TEXT
    columns \<^verbatim>\<open>created_at\<close>, \<^verbatim>\<open>expires_at\<close>, \<^verbatim>\<open>last_activity_at\<close> hold the instant they were
    formatted from, and the SQL comparison of \<^verbatim>\<open>expires_at\<close> with \<^verbatim>\<open>datetime('now')\<close> is the
    comparison of the two instants. The SQL engine is not part of the repository, and the
    texts it compares (the ISO text of \<^verbatim>\<open>toISOString()\<close> and its own text for the current
    time, which differ in format) are not modelled.
  \<^item> Every operation runs in one transaction and reads the clock once: the instant \<open>now\<close> is
    an argument.
  \<^item> Quantities and prices are JavaScript numbers holding integers: \<open>int\<close>.
  \<^item> \<^verbatim>\<open>uuidv4()\<close> is a counter in the state: each call returns an identifier that was never
    returned before.
  \<^item> \<^verbatim>\<open>simulatePayment()\<close> draws a random number; its outcome is an argument.
  \<^item> A table without ORDER BY is read in insertion order: \<open>holds\<close> is a list, an INSERT appends,
    an UPDATE changes rows in place. \<^verbatim>\<open>ticket_inventory\<close> has the primary key
    (concert, tier): a map from that key.
  \<^item> A message with interpolated values is a constructor carrying the values.
  \<^item> \<^verbatim>\<open>rowToHold\<close> only renames the columns of a row: a \<^verbatim>\<open>Hold\<close> is its \<open>HoldRow\<close>.
\<close>

type_synonym timestamp = int

datatype TicketTier = VIP | FRONT_ROW | GA

record TicketTierInfo =
  info_tier :: TicketTier
  name :: string
  price :: int
  description :: string

definition TICKET_TIERS :: "TicketTier \<Rightarrow> TicketTierInfo" where
  "TICKET_TIERS t = (case t of
      VIP \<Rightarrow> \<lparr>info_tier = VIP, name = ''VIP'', price = 10000,
               description = ''Premium seating with exclusive backstage access''\<rparr>
    | FRONT_ROW \<Rightarrow> \<lparr>info_tier = FRONT_ROW, name = ''Front Row'', price = 5000,
               description = ''Front row seats with the best view''\<rparr>
    | GA \<Rightarrow> \<lparr>info_tier = GA, name = ''General Admission'', price = 1000,
               description = ''Standing room with access to all general areas''\<rparr>)"

definition MAX_TICKETS_PER_TIER :: int where "MAX_TICKETS_PER_TIER = 10"
definition MAX_TICKETS_PER_ORDER :: int where "MAX_TICKETS_PER_ORDER = 20"

definition holdDurationMs :: int where "holdDurationMs = 10 * 60 * 1000"

record TicketSelection =
  sel_tier :: TicketTier
  sel_quantity :: int

record HoldRow =
  hold_id :: nat
  session_id :: string
  concert_id :: string
  tier :: TicketTier
  quantity :: int
  created_at :: timestamp
  expires_at :: timestamp
  last_activity_at :: timestamp

record InventoryRow =
  total_quantity :: int
  sold_quantity :: int

datatype BookingStatus = PENDING | CONFIRMED | FAILED | CANCELLED

record BookingItem =
  item_tier :: TicketTier
  item_quantity :: int
  pricePerTicket :: int
  subtotal :: int

record BookingRow =
  booking_id :: nat
  booking_session_id :: string
  booking_concert_id :: string
  total_amount :: int
  status :: BookingStatus
  booking_created_at :: timestamp
  confirmed_at :: "timestamp option"

text \<open>A row of \<^verbatim>\<open>booking_items\<close>; its AUTOINCREMENT key is read by no operation and is
  left out.\<close>

record BookingItemRow =
  row_booking_id :: nat
  row_tier :: TicketTier
  row_quantity :: int
  price_per_ticket :: int
  row_subtotal :: int

record db_state =
  ticket_inventory :: "string \<times> TicketTier \<Rightarrow> InventoryRow option"
  holds :: "HoldRow list"
  bookings :: "BookingRow list"
  booking_items :: "BookingItemRow list"
  uuid_counter :: nat

section \<open>Hold service\<close>

text \<open>\<^verbatim>\<open>SELECT COALESCE(SUM(quantity), 0) FROM holds
  WHERE concert_id = ? AND tier = ? AND expires_at > datetime('now')\<close>\<close>

definition heldQuantity :: "timestamp \<Rightarrow> HoldRow list \<Rightarrow> string \<Rightarrow> TicketTier \<Rightarrow> int" where
  "heldQuantity now hs concertId t =
     sum_list (map quantity
       (filter (\<lambda>h. concert_id h = concertId \<and> tier h = t \<and> expires_at h > now) hs))"

definition getAvailableQuantity :: "timestamp \<Rightarrow> db_state \<Rightarrow> string \<Rightarrow> TicketTier \<Rightarrow> int" where
  "getAvailableQuantity now st concertId t =
     (case ticket_inventory st (concertId, t) of
        None \<Rightarrow> 0
      | Some inventory \<Rightarrow>
          total_quantity inventory - sold_quantity inventory
            - heldQuantity now (holds st) concertId t)"

definition getHoldsForSession :: "timestamp \<Rightarrow> db_state \<Rightarrow> string \<Rightarrow> HoldRow list" where
  "getHoldsForSession now st sessionId =
     filter (\<lambda>h. session_id h = sessionId \<and> expires_at h > now) (holds st)"

definition getHoldsForConcert :: "timestamp \<Rightarrow> db_state \<Rightarrow> string \<Rightarrow> string \<Rightarrow> HoldRow list" where
  "getHoldsForConcert now st sessionId concertId =
     filter (\<lambda>h. session_id h = sessionId \<and> concert_id h = concertId \<and> expires_at h > now)
       (holds st)"

datatype hold_message =
  MaxPerTierExceeded | MaxPerOrderExceeded | SomeTicketsUnavailable

record HoldsResult =
  success :: bool
  res_holds :: "HoldRow list"
  message :: "hold_message option"
  unavailable :: "TicketSelection list option"

text \<open>\<^verbatim>\<open>WHERE session_id = ? AND concert_id = ? AND tier = ?\<close>\<close>

definition hold_matches :: "string \<Rightarrow> string \<Rightarrow> TicketTier \<Rightarrow> HoldRow \<Rightarrow> bool" where
  "hold_matches sessionId concertId t h =
     (session_id h = sessionId \<and> concert_id h = concertId \<and> tier h = t)"

text \<open>One iteration of the loop over the selections inside the transaction of
  \<^verbatim>\<open>createOrUpdateHolds\<close>. The loop state is the database, the list \<^verbatim>\<open>unavailable\<close> and
  the list \<^verbatim>\<open>holdResults\<close>.\<close>

definition hold_step ::
  "string \<Rightarrow> string \<Rightarrow> timestamp \<Rightarrow> db_state \<times> TicketSelection list \<times> HoldRow list
     \<Rightarrow> TicketSelection \<Rightarrow> db_state \<times> TicketSelection list \<times> HoldRow list" where
  "hold_step sessionId concertId now acc selection =
     (case acc of (st, unavail, holdResults) \<Rightarrow>
        let expiresAt = now + holdDurationMs in
        if sel_quantity selection = 0 then
          (st\<lparr>holds := filter (\<lambda>h. \<not> hold_matches sessionId concertId (sel_tier selection) h)
                          (holds st)\<rparr>,
           unavail, holdResults)
        else
          let existingHold = find (hold_matches sessionId concertId (sel_tier selection)) (holds st);
              currentlyHeld = (case existingHold of None \<Rightarrow> 0 | Some e \<Rightarrow> quantity e);
              additionalNeeded = sel_quantity selection - currentlyHeld
          in
          if additionalNeeded > 0
             \<and> additionalNeeded > getAvailableQuantity now st concertId (sel_tier selection)
          then (st,
                unavail @ [\<lparr>sel_tier = sel_tier selection, sel_quantity = sel_quantity selection\<rparr>],
                holdResults)
          else
            (case existingHold of
               Some e \<Rightarrow>
                 (st\<lparr>holds := map (\<lambda>h. if hold_id h = hold_id e
                                        then h\<lparr>quantity := sel_quantity selection,
                                               expires_at := expiresAt,
                                               last_activity_at := now\<rparr>
                                        else h) (holds st)\<rparr>,
                  unavail,
                  holdResults @
                    [\<lparr>hold_id = hold_id e, session_id = sessionId, concert_id = concertId,
                      tier = sel_tier selection, quantity = sel_quantity selection,
                      created_at = created_at e, expires_at = expiresAt,
                      last_activity_at = now\<rparr>])
             | None \<Rightarrow>
                 let holdId = uuid_counter st;
                     row = \<lparr>hold_id = holdId, session_id = sessionId, concert_id = concertId,
                            tier = sel_tier selection, quantity = sel_quantity selection,
                            created_at = now, expires_at = expiresAt, last_activity_at = now\<rparr>
                 in (st\<lparr>holds := holds st @ [row], uuid_counter := Suc holdId\<rparr>,
                     unavail, holdResults @ [row])))"

definition createOrUpdateHolds ::
  "timestamp \<Rightarrow> db_state \<Rightarrow> string \<Rightarrow> string \<Rightarrow> TicketSelection list
     \<Rightarrow> db_state \<times> HoldsResult" where
  "createOrUpdateHolds now st sessionId concertId selections =
     (if list_ex (\<lambda>s. sel_quantity s > MAX_TICKETS_PER_TIER) selections then
        (st, \<lparr>success = False, res_holds = [], message = Some MaxPerTierExceeded,
              unavailable = None\<rparr>)
      else if sum_list (map sel_quantity selections) > MAX_TICKETS_PER_ORDER then
        (st, \<lparr>success = False, res_holds = [], message = Some MaxPerOrderExceeded,
              unavailable = None\<rparr>)
      else
        (case foldl (hold_step sessionId concertId now) (st, [], []) selections of
           (st', unavail, holdResults) \<Rightarrow>
             if length unavail > 0 then
               (st', \<lparr>success = False, res_holds = holdResults,
                      message = Some SomeTicketsUnavailable, unavailable = Some unavail\<rparr>)
             else
               (st', \<lparr>success = True, res_holds = holdResults, message = None,
                      unavailable = None\<rparr>)))"



text \<open>\<^verbatim>\<open>holds.reduce((oldest, h) => created(h) < created(oldest) ? h : oldest)\<close> on a
  non-empty array: the first element starts the fold.\<close>

definition oldestHold :: "HoldRow \<Rightarrow> HoldRow list \<Rightarrow> HoldRow" where
  "oldestHold h0 rest =
     foldl (\<lambda>oldest h. if created_at h < created_at oldest then h else oldest) h0 rest"



definition releaseHolds :: "db_state \<Rightarrow> string \<Rightarrow> string \<Rightarrow> db_state" where
  "releaseHolds st sessionId concertId =
     st\<lparr>holds := filter (\<lambda>h. \<not> (session_id h = sessionId \<and> concert_id h = concertId))
                    (holds st)\<rparr>"

definition releaseAllHolds :: "db_state \<Rightarrow> string \<Rightarrow> db_state" where
  "releaseAllHolds st sessionId =
     st\<lparr>holds := filter (\<lambda>h. \<not> session_id h = sessionId) (holds st)\<rparr>"


section \<open>Booking service\<close>

datatype booking_message =
    NoHoldFound TicketTier
  | HoldTooSmall TicketTier int int
  | InvalidTicketTier TicketTier
  | OnlyAvailable int TicketTier int
  | PaymentDeclined
  | PaymentSuccessful

record Booking =
  b_id :: nat
  b_sessionId :: string
  b_concertId :: string
  b_items :: "BookingItem list"
  b_totalAmount :: int
  b_status :: BookingStatus
  b_createdAt :: timestamp
  b_confirmedAt :: "timestamp option"

record BookingResult =
  bk_success :: bool
  bk_booking :: "Booking option"
  bk_message :: booking_message
  retryAllowed :: "bool option"

text \<open>\<^verbatim>\<open>new Map(holds.map((h) => [h.tier, h]))\<close>: a later entry with the same key
  replaces an earlier one.\<close>

definition holdsByTier :: "HoldRow list \<Rightarrow> TicketTier \<Rightarrow> HoldRow option" where
  "holdsByTier hs = map_of (rev (map (\<lambda>h. (tier h, h)) hs))"

text \<open>The first loop of \<^verbatim>\<open>processBooking\<close>: the failure it returns, if any.\<close>

fun verifyHolds :: "(TicketTier \<Rightarrow> HoldRow option) \<Rightarrow> TicketSelection list
     \<Rightarrow> booking_message option" where
  "verifyHolds byTier [] = None"
| "verifyHolds byTier (selection # rest) =
     (if sel_quantity selection = 0 then verifyHolds byTier rest
      else (case byTier (sel_tier selection) of
              None \<Rightarrow> Some (NoHoldFound (sel_tier selection))
            | Some hold \<Rightarrow>
                if quantity hold < sel_quantity selection
                then Some (HoldTooSmall (sel_tier selection) (quantity hold)
                             (sel_quantity selection))
                else verifyHolds byTier rest))"

text \<open>The second loop: the raw inventory check.\<close>

fun verifyInventory :: "db_state \<Rightarrow> string \<Rightarrow> TicketSelection list
     \<Rightarrow> booking_message option" where
  "verifyInventory st concertId [] = None"
| "verifyInventory st concertId (selection # rest) =
     (if sel_quantity selection = 0 then verifyInventory st concertId rest
      else (case ticket_inventory st (concertId, sel_tier selection) of
              None \<Rightarrow> Some (InvalidTicketTier (sel_tier selection))
            | Some inventory \<Rightarrow>
                let available = total_quantity inventory - sold_quantity inventory in
                if available < sel_quantity selection
                then Some (OnlyAvailable available (sel_tier selection)
                             (sel_quantity selection))
                else verifyInventory st concertId rest))"

text \<open>The third loop: one item per non-zero selection, priced from \<open>TICKET_TIERS\<close>.\<close>

definition makeBookingItems :: "TicketSelection list \<Rightarrow> BookingItem list" where
  "makeBookingItems selections =
     map (\<lambda>selection.
            \<lparr>item_tier = sel_tier selection, item_quantity = sel_quantity selection,
             pricePerTicket = price (TICKET_TIERS (sel_tier selection)),
             subtotal = price (TICKET_TIERS (sel_tier selection)) * sel_quantity selection\<rparr>)
         (filter (\<lambda>selection. sel_quantity selection \<noteq> 0) selections)"

text \<open>\<^verbatim>\<open>UPDATE ticket_inventory SET sold_quantity = sold_quantity + ?
  WHERE concert_id = ? AND tier = ?\<close>\<close>

definition updateInventory :: "int \<Rightarrow> string \<Rightarrow> TicketTier \<Rightarrow> db_state \<Rightarrow> db_state" where
  "updateInventory q concertId t st =
     (case ticket_inventory st (concertId, t) of
        None \<Rightarrow> st
      | Some inventory \<Rightarrow>
          st\<lparr>ticket_inventory := (ticket_inventory st)
               ((concertId, t) \<mapsto> inventory\<lparr>sold_quantity := sold_quantity inventory + q\<rparr>)\<rparr>)"

text \<open>The fourth loop: insert the item row, then add its quantity to the sold count.\<close>

definition insertItem :: "nat \<Rightarrow> string \<Rightarrow> db_state \<Rightarrow> BookingItem \<Rightarrow> db_state" where
  "insertItem bookingId concertId st item =
     updateInventory (item_quantity item) concertId (item_tier item)
       (st\<lparr>booking_items := booking_items st @
              [\<lparr>row_booking_id = bookingId, row_tier = item_tier item,
                row_quantity = item_quantity item, price_per_ticket = pricePerTicket item,
                row_subtotal = subtotal item\<rparr>]\<rparr>)"

definition processBooking ::
  "timestamp \<Rightarrow> bool \<Rightarrow> db_state \<Rightarrow> string \<Rightarrow> string \<Rightarrow> TicketSelection list
     \<Rightarrow> db_state \<times> BookingResult" where
  "processBooking now paymentSuccess st sessionId concertId selections =
     (case verifyHolds (holdsByTier (getHoldsForConcert now st sessionId concertId)) selections of
        Some msg \<Rightarrow>
          (st, \<lparr>bk_success = False, bk_booking = None, bk_message = msg,
                retryAllowed = Some False\<rparr>)
      | None \<Rightarrow>
     (case verifyInventory st concertId selections of
        Some msg \<Rightarrow>
          (st, \<lparr>bk_success = False, bk_booking = None, bk_message = msg,
                retryAllowed = Some False\<rparr>)
      | None \<Rightarrow>
          if \<not> paymentSuccess then
            (st, \<lparr>bk_success = False, bk_booking = None, bk_message = PaymentDeclined,
                  retryAllowed = Some True\<rparr>)
          else
            let bookingId = uuid_counter st;
                bookingItems = makeBookingItems selections;
                totalAmount = sum_list (map subtotal bookingItems);
                st1 = st\<lparr>uuid_counter := Suc bookingId,
                         bookings := bookings st @
                           [\<lparr>booking_id = bookingId, booking_session_id = sessionId,
                             booking_concert_id = concertId, total_amount = totalAmount,
                             status = CONFIRMED, booking_created_at = now,
                             confirmed_at = Some now\<rparr>]\<rparr>;
                st2 = foldl (insertItem bookingId concertId) st1 bookingItems;
                st3 = releaseHolds st2 sessionId concertId
            in (st3, \<lparr>bk_success = True,
                      bk_booking = Some \<lparr>b_id = bookingId, b_sessionId = sessionId,
                                          b_concertId = concertId, b_items = bookingItems,
                                          b_totalAmount = totalAmount, b_status = CONFIRMED,
                                          b_createdAt = now, b_confirmedAt = Some now\<rparr>,
                      bk_message = PaymentSuccessful, retryAllowed = None\<rparr>)))"

section \<open>Predicates of the statements\<close>




section \<open>Concrete states\<close>

text \<open>
  A seeded concert (two VIP, three front-row, five general tickets) and the holds of two
  sessions on it. Instants are milliseconds since the epoch; day 1 begins at 86400000.
  Session A holds two VIP tickets from 85799999, which expire at 86399999, the last
  millisecond of day 0, and one general ticket from 86099999. Session B is granted the two
  VIP tickets at 86400000, after A's VIP hold has expired and before it is swept.
  An expired hold of these states has expired on the day before the instant that looks at
  it: there the stored ISO text and the text of SQLite's \<^verbatim>\<open>datetime('now')\<close> are in the
  order of the two instants.
\<close>

definition seeded :: db_state where
  "seeded = \<lparr>ticket_inventory =
                [(''c1'', VIP) \<mapsto> \<lparr>total_quantity = 2, sold_quantity = 0\<rparr>,
                 (''c1'', FRONT_ROW) \<mapsto> \<lparr>total_quantity = 3, sold_quantity = 0\<rparr>,
                 (''c1'', GA) \<mapsto> \<lparr>total_quantity = 5, sold_quantity = 0\<rparr>],
             holds = [], bookings = [], booking_items = [], uuid_counter = 0\<rparr>"

definition holdA :: HoldRow where
  "holdA = \<lparr>hold_id = 0, session_id = ''A'', concert_id = ''c1'', tier = VIP, quantity = 2,
            created_at = 85799999, expires_at = 86399999, last_activity_at = 85799999\<rparr>"

definition holdA_GA :: HoldRow where
  "holdA_GA = \<lparr>hold_id = 1, session_id = ''A'', concert_id = ''c1'', tier = GA, quantity = 1,
            created_at = 86099999, expires_at = 86699999, last_activity_at = 86099999\<rparr>"

definition holdB :: HoldRow where
  "holdB = \<lparr>hold_id = 2, session_id = ''B'', concert_id = ''c1'', tier = VIP, quantity = 2,
            created_at = 86400000, expires_at = 87000000, last_activity_at = 86400000\<rparr>"

definition st_A :: db_state where
  "st_A = seeded\<lparr>holds := [holdA], uuid_counter := 1\<rparr>"

definition st_A2 :: db_state where
  "st_A2 = seeded\<lparr>holds := [holdA, holdA_GA], uuid_counter := 2\<rparr>"

definition st_stale :: db_state where
  "st_stale = seeded\<lparr>holds := [holdA, holdA_GA, holdB], uuid_counter := 3\<rparr>"

definition st_refreshed :: db_state where
  "st_refreshed =
     seeded\<lparr>holds := [holdA\<lparr>expires_at := 86899999, last_activity_at := 86299999\<rparr>],
            uuid_counter := 1\<rparr>"

definition two_VIP :: "TicketSelection list" where
  "two_VIP = [\<lparr>sel_tier = VIP, sel_quantity = 2\<rparr>]"

definition one_GA :: "TicketSelection list" where
  "one_GA = [\<lparr>sel_tier = GA, sel_quantity = 1\<rparr>]"

definition one_VIP :: "TicketSelection list" where
  "one_VIP = [\<lparr>sel_tier = VIP, sel_quantity = 1\<rparr>]"

definition mixed_request :: "TicketSelection list" where
  "mixed_request = [\<lparr>sel_tier = VIP, sel_quantity = 1\<rparr>, \<lparr>sel_tier = GA, sel_quantity = 2\<rparr>]"

section \<open>Auxiliary facts\<close>

lemmas scen = seeded_def holdA_def holdA_GA_def holdB_def st_A_def st_A2_def st_stale_def
  st_refreshed_def two_VIP_def one_GA_def one_VIP_def mixed_request_def

lemmas hold_eval = createOrUpdateHolds_def hold_step_def hold_matches_def
  getAvailableQuantity_def heldQuantity_def MAX_TICKETS_PER_TIER_def MAX_TICKETS_PER_ORDER_def
  holdDurationMs_def Let_def

lemma reach_st_A: "fst (createOrUpdateHolds 85799999 seeded ''A'' ''c1'' two_VIP) = st_A"
  by (simp add: scen hold_eval)

lemma reach_st_A2: "fst (createOrUpdateHolds 86099999 st_A ''A'' ''c1'' one_GA) = st_A2"
  by (simp add: scen hold_eval)



lemma oldestHold_Nil: "oldestHold h0 [] = h0"
  by (simp add: oldestHold_def)

lemma oldestHold_Cons:
  "oldestHold h0 (a # rest) = oldestHold (if created_at a < created_at h0 then a else h0) rest"
  by (simp add: oldestHold_def)

lemma oldestHold_mem: "oldestHold h0 rest \<in> set (h0 # rest)"
proof (induction rest arbitrary: h0)
  case Nil
  show ?case by (simp add: oldestHold_Nil)
next
  case (Cons a rest)
  show ?case
  proof (cases "created_at a < created_at h0")
    case True
    then show ?thesis using Cons.IH[of a] by (auto simp: oldestHold_Cons)
  next
    case False
    then show ?thesis using Cons.IH[of h0] by (auto simp: oldestHold_Cons)
  qed
qed












lemma verifyHolds_None_iff:
  "verifyHolds byTier sels = None \<longleftrightarrow>
     (\<forall>s \<in> set sels. sel_quantity s \<noteq> 0 \<longrightarrow>
        (\<exists>h. byTier (sel_tier s) = Some h \<and> \<not> quantity h < sel_quantity s))"
  by (induction sels) (auto split: option.splits)

lemma verifyInventory_None_iff:
  "verifyInventory st cid sels = None \<longleftrightarrow>
     (\<forall>s \<in> set sels. sel_quantity s \<noteq> 0 \<longrightarrow>
        (\<exists>inv. ticket_inventory st (cid, sel_tier s) = Some inv
           \<and> \<not> total_quantity inv - sold_quantity inv < sel_quantity s))"
  by (induction sels) (auto simp: Let_def split: option.splits)



lemma makeBookingItems_all_zero:
  "\<forall>s \<in> set sels. sel_quantity s = 0 \<Longrightarrow> makeBookingItems sels = []"
  by (simp add: makeBookingItems_def filter_empty_conv)

lemma insertItem_frame:
  "holds (insertItem b cid st i) = holds st"
  "bookings (insertItem b cid st i) = bookings st"
  "uuid_counter (insertItem b cid st i) = uuid_counter st"
  "booking_items (insertItem b cid st i) = booking_items st @
     [\<lparr>row_booking_id = b, row_tier = item_tier i, row_quantity = item_quantity i,
       price_per_ticket = pricePerTicket i, row_subtotal = subtotal i\<rparr>]"
  by (simp_all add: insertItem_def updateInventory_def split: option.splits)

lemma insertItem_inventory:
  "ticket_inventory (insertItem b cid st i) (c, t) =
     map_option (\<lambda>inv. inv\<lparr>sold_quantity := sold_quantity inv
                    + (if c = cid \<and> item_tier i = t then item_quantity i else 0)\<rparr>)
       (ticket_inventory st (c, t))"
  by (cases "ticket_inventory st (c, t)")
     (auto simp: insertItem_def updateInventory_def split: option.splits)

lemma foldl_insertItem_frame:
  "holds (foldl (insertItem b cid) st items) = holds st"
  "bookings (foldl (insertItem b cid) st items) = bookings st"
  "uuid_counter (foldl (insertItem b cid) st items) = uuid_counter st"
  by (induction items arbitrary: st) (simp_all add: insertItem_frame)

lemma foldl_insertItem_items:
  "booking_items (foldl (insertItem b cid) st items) = booking_items st @
     map (\<lambda>i. \<lparr>row_booking_id = b, row_tier = item_tier i, row_quantity = item_quantity i,
       price_per_ticket = pricePerTicket i, row_subtotal = subtotal i\<rparr>) items"
  by (induction items arbitrary: st) (simp_all add: insertItem_frame)

lemma foldl_insertItem_inventory:
  "ticket_inventory (foldl (insertItem b cid) st items) (c, t) =
     map_option (\<lambda>inv. inv\<lparr>sold_quantity := sold_quantity inv
                    + (if c = cid then sum_list (map item_quantity
                          (filter (\<lambda>i. item_tier i = t) items)) else 0)\<rparr>)
       (ticket_inventory st (c, t))"
proof (induction items arbitrary: st)
  case Nil
  show ?case by (cases "ticket_inventory st (c, t)") simp_all
next
  case (Cons i items)
  show ?case
    by (cases "ticket_inventory st (c, t)")
       (simp_all add: Cons.IH insertItem_inventory algebra_simps)
qed

lemma purchased_items:
  "sum_list (map item_quantity (filter (\<lambda>i. item_tier i = t) (makeBookingItems sels)))
     = sum_list (map sel_quantity (filter (\<lambda>s. sel_tier s = t) sels))"
  by (induction sels) (simp_all add: makeBookingItems_def)

lemma subtotal_items:
  "sum_list (map subtotal (makeBookingItems sels))
     = sum_list (map (\<lambda>s. price (TICKET_TIERS (sel_tier s)) * sel_quantity s)
         (filter (\<lambda>s. sel_quantity s \<noteq> 0) sels))"
  by (simp add: makeBookingItems_def comp_def)



subsection \<open>The loop of createOrUpdateHolds\<close>
















lemma find_None_filter: "find P xs = None \<Longrightarrow> filter P xs = []"
  by (induction xs) (auto split: if_splits)




















section \<open>The claims\<close>

text \<open>
  Claim C1 asks that sold plus the quantities of the non-expired holds never exceeds the
  total of a tier, in every state the operations reach. The trace below reaches a state
  that breaks it. Session A holds the two VIP tickets of the concert from 85799999; the
  hold expires at 86399999 and is not yet swept at 86400000, when session B asks for two
  VIP tickets and is granted them (nothing is held any more); at 86400001 session A asks
  again for its two tickets: \<open>createOrUpdateHolds\<close> finds A's expired row, needs no
  additional ticket, makes no availability check and refreshes the row. Four VIP tickets
  are then held out of a total of two.
\<close>

theorem stale_hold_refresh_oversubscribes:
  "heldQuantity 86400001
     (holds (fst (createOrUpdateHolds 86400001
        (fst (createOrUpdateHolds 86400000
           (fst (createOrUpdateHolds 85799999 seeded ''A'' ''c1'' two_VIP))
           ''B'' ''c1'' two_VIP))
        ''A'' ''c1'' two_VIP))) ''c1'' VIP = 4
   \<and> ticket_inventory (fst (createOrUpdateHolds 86400001
        (fst (createOrUpdateHolds 86400000
           (fst (createOrUpdateHolds 85799999 seeded ''A'' ''c1'' two_VIP))
           ''B'' ''c1'' two_VIP))
        ''A'' ''c1'' two_VIP)) (''c1'', VIP)
       = Some \<lparr>total_quantity = 2, sold_quantity = 0\<rparr>
   \<and> success (snd (createOrUpdateHolds 86400000
           (fst (createOrUpdateHolds 85799999 seeded ''A'' ''c1'' two_VIP)) ''B'' ''c1'' two_VIP))
   \<and> success (snd (createOrUpdateHolds 86400001
        (fst (createOrUpdateHolds 86400000
           (fst (createOrUpdateHolds 85799999 seeded ''A'' ''c1'' two_VIP))
           ''B'' ''c1'' two_VIP))
        ''A'' ''c1'' two_VIP))"
  by (simp add: reach_st_A) (simp add: scen hold_eval)

text \<open>
  Claim C2. A call of \<open>processBooking\<close> that reports success appends exactly one booking,
  CONFIRMED, whose total is the sum of the subtotals; appends one item row per non-zero
  selection, its subtotal the tier's configured price times the quantity; adds to the sold
  count of every (concert, tier) the quantity purchased of it, each purchased row existing;
  and deletes all holds of the session for the concert.
\<close>

theorem booking_success_effects:
  assumes run: "processBooking now paymentSuccess st sessionId concertId selections = (st', r)"
    and ok: "bk_success r"
  shows "bookings st' = bookings st @
           [\<lparr>booking_id = uuid_counter st, booking_session_id = sessionId,
             booking_concert_id = concertId,
             total_amount = sum_list (map (\<lambda>s. price (TICKET_TIERS (sel_tier s)) * sel_quantity s)
                               (filter (\<lambda>s. sel_quantity s \<noteq> 0) selections)),
             status = CONFIRMED, booking_created_at = now, confirmed_at = Some now\<rparr>]
       \<and> booking_items st' = booking_items st @
           map (\<lambda>s. \<lparr>row_booking_id = uuid_counter st, row_tier = sel_tier s,
                      row_quantity = sel_quantity s,
                      price_per_ticket = price (TICKET_TIERS (sel_tier s)),
                      row_subtotal = price (TICKET_TIERS (sel_tier s)) * sel_quantity s\<rparr>)
               (filter (\<lambda>s. sel_quantity s \<noteq> 0) selections)
       \<and> (\<forall>c t. ticket_inventory st' (c, t) =
             map_option (\<lambda>inv. inv\<lparr>sold_quantity := sold_quantity inv
                 + (if c = concertId
                    then sum_list (map sel_quantity (filter (\<lambda>s. sel_tier s = t) selections))
                    else 0)\<rparr>) (ticket_inventory st (c, t)))
       \<and> (\<forall>s \<in> set selections. sel_quantity s \<noteq> 0 \<longrightarrow>
             ticket_inventory st (concertId, sel_tier s) \<noteq> None)
       \<and> holds st' = filter (\<lambda>h. \<not> (session_id h = sessionId \<and> concert_id h = concertId))
                        (holds st)
       \<and> uuid_counter st' = Suc (uuid_counter st)
       \<and> (\<exists>b. bk_booking r = Some b \<and> b_status b = CONFIRMED
               \<and> b_totalAmount b = sum_list (map subtotal (b_items b))
               \<and> b_items b = makeBookingItems selections)"
proof -
  from run ok have vh:
    "verifyHolds (holdsByTier (getHoldsForConcert now st sessionId concertId)) selections = None"
    by (auto simp: processBooking_def split: option.splits if_splits)
  from run ok vh have vi: "verifyInventory st concertId selections = None"
    by (auto simp: processBooking_def split: option.splits if_splits)
  from run ok vh vi have pay: "paymentSuccess"
    by (auto simp: processBooking_def split: if_splits)
  from run vh vi pay have st': "st' = releaseHolds
      (foldl (insertItem (uuid_counter st) concertId)
         (st\<lparr>uuid_counter := Suc (uuid_counter st),
             bookings := bookings st @
               [\<lparr>booking_id = uuid_counter st, booking_session_id = sessionId,
                 booking_concert_id = concertId,
                 total_amount = sum_list (map subtotal (makeBookingItems selections)),
                 status = CONFIRMED, booking_created_at = now, confirmed_at = Some now\<rparr>]\<rparr>)
         (makeBookingItems selections)) sessionId concertId"
    and r: "bk_booking r = Some \<lparr>b_id = uuid_counter st, b_sessionId = sessionId,
              b_concertId = concertId, b_items = makeBookingItems selections,
              b_totalAmount = sum_list (map subtotal (makeBookingItems selections)),
              b_status = CONFIRMED, b_createdAt = now, b_confirmedAt = Some now\<rparr>"
    by (auto simp: processBooking_def Let_def)
  have 1: "bookings st' = bookings st @
           [\<lparr>booking_id = uuid_counter st, booking_session_id = sessionId,
             booking_concert_id = concertId,
             total_amount = sum_list (map (\<lambda>s. price (TICKET_TIERS (sel_tier s)) * sel_quantity s)
                               (filter (\<lambda>s. sel_quantity s \<noteq> 0) selections)),
             status = CONFIRMED, booking_created_at = now, confirmed_at = Some now\<rparr>]"
    by (simp add: st' releaseHolds_def foldl_insertItem_frame subtotal_items)
  have 2: "booking_items st' = booking_items st @
           map (\<lambda>s. \<lparr>row_booking_id = uuid_counter st, row_tier = sel_tier s,
                      row_quantity = sel_quantity s,
                      price_per_ticket = price (TICKET_TIERS (sel_tier s)),
                      row_subtotal = price (TICKET_TIERS (sel_tier s)) * sel_quantity s\<rparr>)
               (filter (\<lambda>s. sel_quantity s \<noteq> 0) selections)"
    by (simp add: st' releaseHolds_def foldl_insertItem_items makeBookingItems_def comp_def)
  have 3: "\<forall>c t. ticket_inventory st' (c, t) =
             map_option (\<lambda>inv. inv\<lparr>sold_quantity := sold_quantity inv
                 + (if c = concertId
                    then sum_list (map sel_quantity (filter (\<lambda>s. sel_tier s = t) selections))
                    else 0)\<rparr>) (ticket_inventory st (c, t))"
    by (simp add: st' releaseHolds_def foldl_insertItem_inventory purchased_items)
  have 4: "\<forall>s \<in> set selections. sel_quantity s \<noteq> 0 \<longrightarrow>
             ticket_inventory st (concertId, sel_tier s) \<noteq> None"
    using vi by (auto simp: verifyInventory_None_iff)
  have 5: "holds st' = filter (\<lambda>h. \<not> (session_id h = sessionId \<and> concert_id h = concertId))
                        (holds st)"
    by (simp add: st' releaseHolds_def foldl_insertItem_frame)
  have 6: "uuid_counter st' = Suc (uuid_counter st)"
    by (simp add: st' releaseHolds_def foldl_insertItem_frame)
  have 7: "\<exists>b. bk_booking r = Some b \<and> b_status b = CONFIRMED
               \<and> b_totalAmount b = sum_list (map subtotal (b_items b))
               \<and> b_items b = makeBookingItems selections"
    by (simp add: r)
  from 1 2 3 4 5 6 7 show ?thesis by blast
qed

text \<open>The theorem of claim C2 at a concrete state.\<close>

theorem booking_success_effects_witness:
  "bk_success (snd (processBooking 85800005 True st_A ''A'' ''c1'' two_VIP))
   \<and> bookings (fst (processBooking 85800005 True st_A ''A'' ''c1'' two_VIP)) =
        [\<lparr>booking_id = 1, booking_session_id = ''A'', booking_concert_id = ''c1'',
          total_amount = 20000, status = CONFIRMED, booking_created_at = 85800005,
          confirmed_at = Some 85800005\<rparr>]
   \<and> booking_items (fst (processBooking 85800005 True st_A ''A'' ''c1'' two_VIP)) =
        [\<lparr>row_booking_id = 1, row_tier = VIP, row_quantity = 2, price_per_ticket = 10000,
          row_subtotal = 20000\<rparr>]
   \<and> ticket_inventory (fst (processBooking 85800005 True st_A ''A'' ''c1'' two_VIP)) (''c1'', VIP)
        = Some \<lparr>total_quantity = 2, sold_quantity = 2\<rparr>
   \<and> holds (fst (processBooking 85800005 True st_A ''A'' ''c1'' two_VIP)) = []"
proof -
  have ok: "bk_success (snd (processBooking 85800005 True st_A ''A'' ''c1'' two_VIP))"
    by (simp add: processBooking_def scen getHoldsForConcert_def holdsByTier_def Let_def)
  show ?thesis
    using ok booking_success_effects[OF prod.collapse[symmetric] ok]
    by (simp add: scen TICKET_TIERS_def)
qed











text \<open>
  Claim C7. When some selection's quantity exceeds the per-tier cap (10) or the quantities
  sum to more than the per-order cap (20), \<open>createOrUpdateHolds\<close> returns failure with an
  empty list of holds and the state it was given: no hold is created, updated or deleted
  and no timestamp is refreshed.
\<close>

theorem cap_validation_rejects_without_mutation:
  assumes "(\<exists>s \<in> set selections. sel_quantity s > MAX_TICKETS_PER_TIER)
           \<or> sum_list (map sel_quantity selections) > MAX_TICKETS_PER_ORDER"
  shows "fst (createOrUpdateHolds now st sessionId concertId selections) = st
       \<and> success (snd (createOrUpdateHolds now st sessionId concertId selections)) = False
       \<and> res_holds (snd (createOrUpdateHolds now st sessionId concertId selections)) = []
       \<and> unavailable (snd (createOrUpdateHolds now st sessionId concertId selections)) = None
       \<and> MAX_TICKETS_PER_TIER = 10 \<and> MAX_TICKETS_PER_ORDER = 20"
  using assms
  by (auto simp: createOrUpdateHolds_def list_ex_iff MAX_TICKETS_PER_TIER_def
        MAX_TICKETS_PER_ORDER_def)

text \<open>The theorem of claim C7 at a concrete state.\<close>

theorem cap_validation_rejects_without_mutation_witness:
  "sel_quantity \<lparr>sel_tier = VIP, sel_quantity = 11\<rparr> > MAX_TICKETS_PER_TIER
   \<and> fst (createOrUpdateHolds 85800005 st_A ''B'' ''c1'' [\<lparr>sel_tier = VIP, sel_quantity = 11\<rparr>]) = st_A
   \<and> success (snd (createOrUpdateHolds 85800005 st_A ''B'' ''c1''
                  [\<lparr>sel_tier = VIP, sel_quantity = 11\<rparr>])) = False
   \<and> res_holds (snd (createOrUpdateHolds 85800005 st_A ''B'' ''c1''
                  [\<lparr>sel_tier = VIP, sel_quantity = 11\<rparr>])) = []"
  using cap_validation_rejects_without_mutation[of "[\<lparr>sel_tier = VIP, sel_quantity = 11\<rparr>]" 85800005 st_A "''B''" "''c1''"]
  by (simp add: MAX_TICKETS_PER_TIER_def)






text \<open>
  Claim C10. When every selection has quantity 0 (the empty list included),
  \<open>processBooking\<close> succeeds or fails by the payment alone, whatever the holds and the
  inventory are: no hold check and no inventory check can fail. A successful payment
  records a CONFIRMED booking of total 0 with no items, leaves the inventory as it was and
  deletes every hold of the session for the concert.
\<close>

theorem booking_of_zero_selections:
  assumes "\<forall>s \<in> set selections. sel_quantity s = 0"
  shows "processBooking now False st sessionId concertId selections =
           (st, \<lparr>bk_success = False, bk_booking = None, bk_message = PaymentDeclined,
                 retryAllowed = Some True\<rparr>)
       \<and> processBooking now True st sessionId concertId selections =
           (st\<lparr>uuid_counter := Suc (uuid_counter st),
               bookings := bookings st @
                 [\<lparr>booking_id = uuid_counter st, booking_session_id = sessionId,
                   booking_concert_id = concertId, total_amount = 0,
                   status = CONFIRMED, booking_created_at = now,
                   confirmed_at = Some now\<rparr>],
               holds := filter (\<lambda>h. \<not> (session_id h = sessionId \<and> concert_id h = concertId))
                          (holds st)\<rparr>,
            \<lparr>bk_success = True,
             bk_booking = Some \<lparr>b_id = uuid_counter st, b_sessionId = sessionId,
                                 b_concertId = concertId, b_items = [],
                                 b_totalAmount = 0, b_status = CONFIRMED,
                                 b_createdAt = now, b_confirmedAt = Some now\<rparr>,
             bk_message = PaymentSuccessful, retryAllowed = None\<rparr>)"
proof -
  have vh: "verifyHolds byTier selections = None" for byTier
    using assms by (simp add: verifyHolds_None_iff)
  have vi: "verifyInventory st concertId selections = None"
    using assms by (simp add: verifyInventory_None_iff)
  have items: "makeBookingItems selections = []"
    using assms by (rule makeBookingItems_all_zero)
  show ?thesis
    by (simp add: processBooking_def vh vi items releaseHolds_def Let_def)
qed

text \<open>The theorem of claim C10 at a concrete state.\<close>

theorem booking_of_zero_selections_witness:
  "sel_quantity \<lparr>sel_tier = VIP, sel_quantity = 0\<rparr> = 0
   \<and> holds (fst (processBooking 85800005 True st_A ''A'' ''c1'' [\<lparr>sel_tier = VIP, sel_quantity = 0\<rparr>])) = []
   \<and> bookings (fst (processBooking 85800005 True st_A ''A'' ''c1'' [\<lparr>sel_tier = VIP, sel_quantity = 0\<rparr>])) =
        [\<lparr>booking_id = 1, booking_session_id = ''A'', booking_concert_id = ''c1'',
          total_amount = 0, status = CONFIRMED, booking_created_at = 85800005, confirmed_at = Some 85800005\<rparr>]
   \<and> booking_items (fst (processBooking 85800005 True st_A ''A'' ''c1'' [\<lparr>sel_tier = VIP, sel_quantity = 0\<rparr>])) = []
   \<and> ticket_inventory (fst (processBooking 85800005 True st_A ''A'' ''c1'' [\<lparr>sel_tier = VIP, sel_quantity = 0\<rparr>]))
        = ticket_inventory st_A
   \<and> bk_success (snd (processBooking 85800005 True st_A ''A'' ''c1'' [\<lparr>sel_tier = VIP, sel_quantity = 0\<rparr>]))"
  using booking_of_zero_selections[of "[\<lparr>sel_tier = VIP, sel_quantity = 0\<rparr>]" 85800005 st_A "''A''" "''c1''"]
  by (simp add: scen)

end
